theory Spec2Isabelle
  imports Complex_Main "HOL-Library.Sublist"
begin

section \<open>JavaScript values and strings\<close>

text \<open>
  The front end receives its data as decoded JSON and handles it as \<open>any\<close>. A value is
  modelled by the datatype below. Numbers are the rationals (only whether a number is zero
  is ever read). An object is an association list, read by the first binding of a key.
  \<open>JFun\<close> stands for a built-in function value, named by its \<open>name\<close> property: JSON
  never holds one, but reading a built-in method of a string yields one.

  A string is a list of code units, restricted to the range U+0000..U+00FF that the
  8-bit \<open>char\<close> can hold.
\<close>

datatype jsval =
    JUndefined
  | JNull
  | JBool bool
  | JNum rat
  | JStr string
  | JArr "jsval list"
  | JObj "(string \<times> jsval) list"
  | JFun string

text \<open>ToBoolean: what \<open>if (v)\<close>, \<open>!v\<close>, \<open>v && w\<close> and \<open>v || w\<close> test.\<close>

fun truthy :: "jsval \<Rightarrow> bool" where
  "truthy JUndefined = False"
| "truthy JNull = False"
| "truthy (JBool b) = b"
| "truthy (JNum x) = (x \<noteq> 0)"
| "truthy (JStr s) = (s \<noteq> [])"
| "truthy (JArr xs) = True"
| "truthy (JObj kvs) = True"
| "truthy (JFun n) = True"

text \<open>\<open>a || b\<close> on values.\<close>

definition js_or :: "jsval \<Rightarrow> jsval \<Rightarrow> jsval" where
  "js_or a b = (if truthy a then a else b)"

text \<open>\<open>a || b\<close> where \<open>a\<close> is an optional string (\<open>a?: string\<close>) and \<open>b\<close> a string.\<close>

definition str_or :: "string option \<Rightarrow> string \<Rightarrow> string" where
  "str_or a b = (case a of None \<Rightarrow> b | Some s \<Rightarrow> if s \<noteq> [] then s else b)"

text \<open>\<open>!a\<close> for an optional string.\<close>

definition str_not :: "string option \<Rightarrow> bool" where
  "str_not a = (case a of None \<Rightarrow> True | Some s \<Rightarrow> s = [])"

text \<open>
  \<open>v.k\<close> for a value \<open>v\<close> that is neither \<open>null\<close> nor \<open>undefined\<close> (reading a member of
  those throws, see \<open>nullish\<close>). The members the code reads are \<open>metadata\<close>, \<open>url\<close>,
  \<open>title\<close>, \<open>source_url\<close>, \<open>link\<close>, \<open>name\<close> and \<open>filename\<close>: of these, a string
  has the built-in method \<open>link\<close> and a function has its \<open>name\<close>; booleans, numbers and
  arrays have none of them.
\<close>

fun get_field :: "jsval \<Rightarrow> string \<Rightarrow> jsval" where
  "get_field (JObj kvs) k = (case map_of kvs k of Some v \<Rightarrow> v | None \<Rightarrow> JUndefined)"
| "get_field (JStr s) k = (if k = ''link'' then JFun ''link'' else JUndefined)"
| "get_field (JFun n) k = (if k = ''name'' then JStr n else JUndefined)"
| "get_field v k = JUndefined"

fun nullish :: "jsval \<Rightarrow> bool" where
  "nullish JUndefined = True"
| "nullish JNull = True"
| "nullish v = False"

text \<open>
  White space as \<open>String.prototype.trim\<close> strips it (WhiteSpace and LineTerminator of
  ECMAScript), within U+0000..U+00FF: tab, line feed, vertical tab, form feed, carriage
  return, space and no-break space.
\<close>

definition is_ws :: "char \<Rightarrow> bool" where
  "is_ws c = (c = CHR 0x09 \<or> c = CHR 0x0A \<or> c = CHR 0x0B \<or> c = CHR 0x0C \<or> c = CHR 0x0D
               \<or> c = CHR 0x20 \<or> c = CHR 0xA0)"

definition trim :: "string \<Rightarrow> string" where
  "trim s = rev (dropWhile is_ws (rev (dropWhile is_ws s)))"

text \<open>\<open>s.split('\n')\<close>: the pieces between line feeds; the empty string gives one empty piece.\<close>

fun split_lines :: "string \<Rightarrow> string list" where
  "split_lines [] = [[]]"
| "split_lines (c # cs) =
     (if c = CHR 0x0A then [] # split_lines cs
      else (case split_lines cs of [] \<Rightarrow> [[c]] | l # ls \<Rightarrow> (c # l) # ls))"

section \<open>The chat page: TestBot and ChatWidget\<close>

subsection \<open>Data\<close>

datatype role = User | Assistant

text \<open>
  \<open>interface Message\<close> of the test-bot page. \<open>sources\<close> is \<open>None\<close> where the object
  literal has no such member; \<open>legal_response\<close> is a member of the legal variant of the page
  only and \<open>JUndefined\<close> elsewhere.
\<close>

record msg =
  role :: role
  content :: jsval
  sources :: "jsval list option"
  legal_response :: jsval

text \<open>\<open>interface MenuOption\<close> and the members of \<open>bot\<close> that the chat page reads.\<close>

record menu_option =
  option_name :: string
  prompt :: string

record bot =
  name :: string
  greeting_message :: "string option"
  menu_options :: "menu_option list option"

text \<open>
  The state of the TestBot component: its \<open>useState\<close> cells, and \<open>botId\<close> from the page's
  URL. The page loads the bot (and without a \<open>botId\<close> leaves for the dashboard), and renders
  the chat only once \<open>bot\<close> is set, so \<open>botId\<close> is a string wherever a message can be sent.
\<close>

record test_bot =
  botId :: string
  bot :: "bot option"
  messages :: "msg list"
  inputMessage :: string
  isLoading :: bool
  showSources :: "nat \<rightharpoonup> bool"
  showMenu :: bool

text \<open>
  A request as \<open>client.get\<close>, \<open>client.post\<close> and \<open>client.put\<close> send it: the method,
  the path and the body (a JSON object, or form data holding files). A file is stood for
  by its name.
\<close>

type_synonym js_file = string

datatype http_method = GET | POST | PUT

datatype payload = NoBody | JsonBody "(string \<times> jsval) list" | FormData "(string \<times> js_file) list"

record request =
  http_method :: http_method
  path :: string
  body :: payload

text \<open>
  What becomes of a posted chat request. \<open>Rejected\<close> is the promise rejecting (no
  connection, a status outside 2xx, a timeout); \<open>Resolved\<close> holds \<open>response.data\<close>. The
  body of a chat response is taken at the shape the page declares for what it stores:
  \<open>sources\<close>, where present, is an array (\<open>sources?: any[]\<close>) of arbitrary values; the
  other members are copied without being inspected and may be any value (\<open>JUndefined\<close>
  when absent).
\<close>

record chat_response =
  data_message :: jsval
  data_summary :: jsval
  data_legal_response :: jsval
  data_sources :: "jsval list option"

datatype outcome = Rejected | Resolved chat_response

datatype error = TypeError

subsection \<open>sendMessage (TestBot rendering ChatWidget)\<close>

definition user_message :: "string \<Rightarrow> msg" where
  "user_message c = \<lparr>role = User, content = JStr c, sources = None, legal_response = JUndefined\<rparr>"

definition errorMessage :: msg where
  "errorMessage = \<lparr>role = Assistant,
                    content = JStr ''Sorry, I encountered an error. Please try again.'',
                    sources = None, legal_response = JUndefined\<rparr>"

text \<open>\<open>const content = messageContent || inputMessage\<close>.\<close>

definition effective_content :: "test_bot \<Rightarrow> string option \<Rightarrow> string" where
  "effective_content st messageContent = str_or messageContent (inputMessage st)"

text \<open>
  The part of \<open>sendMessage\<close> that runs before \<open>await\<close>: the guard, the user turn, the
  input field, the loading flag, and the request that is posted (\<open>None\<close> when the guard
  returns early).
\<close>

definition sendMessage_request :: "test_bot \<Rightarrow> string option \<Rightarrow> test_bot \<times> request option" where
  "sendMessage_request st messageContent =
     (let content = effective_content st messageContent in
      if trim content = [] \<or> isLoading st then (st, None)
      else
        (st\<lparr>messages := messages st @ [user_message content],
            inputMessage := (if str_not messageContent then [] else inputMessage st),
            isLoading := True\<rparr>,
         Some \<lparr>http_method = POST, path = ''/api/chat/'' @ botId st,
               body = JsonBody [(''content'', JStr content)]\<rparr>))"

text \<open>
  The function given to \<open>sources.map\<close>. Reading \<open>src.metadata\<close> of \<open>null\<close> throws a
  TypeError; every later read is of a value already known to be truthy, or of \<open>src\<close> again.
\<close>

definition transform_source :: "jsval \<Rightarrow> error + jsval" where
  "transform_source src =
     (if nullish src then Inl TypeError
      else
        let metadata = get_field src ''metadata'' in
        if truthy metadata \<and> truthy (get_field metadata ''url'')
           \<and> truthy (get_field metadata ''title'')
        then Inr src
        else Inr (JObj [(''metadata'', JObj
          [(''url'', js_or (js_or (js_or (get_field src ''url'') (get_field src ''source_url''))
                                  (get_field src ''link'')) (JStr [])),
           (''title'', js_or (js_or (js_or (js_or (get_field src ''title'') (get_field src ''name''))
                                    (get_field src ''filename'')) (get_field src ''url''))
                             (JStr ''Source''))])]))"

text \<open>\<open>xs.map(f)\<close> for an \<open>f\<close> that may throw: the first exception ends the loop.\<close>

fun map_throwing :: "('a \<Rightarrow> error + 'b) \<Rightarrow> 'a list \<Rightarrow> error + 'b list" where
  "map_throwing f [] = Inr []"
| "map_throwing f (x # xs) =
     (case f x of
        Inl e \<Rightarrow> Inl e
      | Inr y \<Rightarrow> (case map_throwing f xs of Inl e \<Rightarrow> Inl e | Inr ys \<Rightarrow> Inr (y # ys)))"

text \<open>The \<open>try\<close> block after the response has arrived: the assistant turn, or the exception.\<close>

definition assistantMessage :: "chat_response \<Rightarrow> error + msg" where
  "assistantMessage d =
     (let sources0 = (case data_sources d of None \<Rightarrow> [] | Some xs \<Rightarrow> xs) in
      case (if length sources0 > 0 then map_throwing transform_source sources0 else Inr sources0) of
        Inl e \<Rightarrow> Inl e
      | Inr srcs \<Rightarrow> Inr \<lparr>role = Assistant, content = data_message d, sources = Some srcs,
                         legal_response = JUndefined\<rparr>)"

text \<open>The rest of \<open>sendMessage\<close>, run when the posted request settles: \<open>try\<close>, \<open>catch\<close>, \<open>finally\<close>.\<close>

definition sendMessage_response :: "test_bot \<Rightarrow> outcome \<Rightarrow> test_bot" where
  "sendMessage_response st out =
     (let m = (case out of
                 Rejected \<Rightarrow> errorMessage
               | Resolved d \<Rightarrow> (case assistantMessage d of Inl e \<Rightarrow> errorMessage | Inr a \<Rightarrow> a))
      in st\<lparr>messages := messages st @ [m], isLoading := False\<rparr>)"

text \<open>
  One whole call of \<open>sendMessage\<close> with nothing else happening in between: the state after
  it and the request it posted, \<open>out\<close> being what the request came to.
\<close>

definition sendMessage :: "test_bot \<Rightarrow> string option \<Rightarrow> outcome \<Rightarrow> test_bot \<times> request option" where
  "sendMessage st messageContent out =
     (case sendMessage_request st messageContent of
        (st', None) \<Rightarrow> (st', None)
      | (st', Some req) \<Rightarrow> (sendMessage_response st' out, Some req))"

text \<open>
  What can happen to the page in a chat session, one event at a time: a call of
  \<open>sendMessage\<close> up to its \<open>await\<close>, and a posted request settling.
\<close>

datatype event = Send "string option" | Settle outcome

fun step :: "test_bot \<Rightarrow> event \<Rightarrow> test_bot" where
  "step st (Send messageContent) = fst (sendMessage_request st messageContent)"
| "step st (Settle out) = sendMessage_response st out"

subsection \<open>sendMessage (TestBot, legal variant)\<close>

text \<open>
  The earlier page differs after the response only: the answer text has fallbacks, the
  sources are stored as they came and the legal response is kept. It has no \<open>showMenu\<close>
  cell; the record's one is left alone.
\<close>

definition assistantMessage_legal :: "chat_response \<Rightarrow> msg" where
  "assistantMessage_legal d =
     \<lparr>role = Assistant,
      content = js_or (js_or (data_message d) (data_summary d))
                      (JStr ''I apologize, but I couldn't process your request.''),
      sources = Some (case data_sources d of None \<Rightarrow> [] | Some xs \<Rightarrow> xs),
      legal_response = data_legal_response d\<rparr>"

definition sendMessage_response_legal :: "test_bot \<Rightarrow> outcome \<Rightarrow> test_bot" where
  "sendMessage_response_legal st out =
     (let m = (case out of Rejected \<Rightarrow> errorMessage | Resolved d \<Rightarrow> assistantMessage_legal d)
      in st\<lparr>messages := messages st @ [m], isLoading := False\<rparr>)"

definition sendMessage_legal :: "test_bot \<Rightarrow> string option \<Rightarrow> outcome \<Rightarrow> test_bot \<times> request option" where
  "sendMessage_legal st messageContent out =
     (case sendMessage_request st messageContent of
        (st', None) \<Rightarrow> (st', None)
      | (st', Some req) \<Rightarrow> (sendMessage_response_legal st' out, Some req))"

subsection \<open>clearChat and restartChat\<close>

definition clearChat :: "test_bot \<Rightarrow> test_bot" where
  "clearChat st = st\<lparr>messages := [], inputMessage := [], showSources := Map.empty, showMenu := False\<rparr>"

definition greeting :: "string \<Rightarrow> msg" where
  "greeting g = \<lparr>role = Assistant, content = JStr g, sources = None, legal_response = JUndefined\<rparr>"

definition restartChat :: "test_bot \<Rightarrow> test_bot" where
  "restartChat st =
     (let st' = clearChat st in
      case bot st' of
        None \<Rightarrow> st'
      | Some b \<Rightarrow> (case greeting_message b of
                     None \<Rightarrow> st'
                   | Some g \<Rightarrow> if g \<noteq> [] then st'\<lparr>messages := [greeting g]\<rparr> else st'))"

subsection \<open>ChatWidget\<close>

text \<open>
  The widget's own cells: \<open>isOpen\<close>, \<open>inputValue\<close> (the text of the input field it
  renders) and \<open>showSources\<close> (which source panels are open; named \<open>showSources_widget\<close>
  here, the page having a cell of the same name). The widget is given the page's
  \<open>sendMessage\<close>, \<open>restartChat\<close> and \<open>clearChat\<close> as \<open>onSend\<close>, \<open>onRestart\<close> and
  \<open>onClear\<close>; a handler takes the callback as an argument and returns what the call
  returns, with the widget's cells after it.
\<close>

record chat_widget =
  isOpen :: bool
  inputValue :: string
  showSources_widget :: "nat \<rightharpoonup> bool"

definition handleSendMessage :: "(string \<Rightarrow> 'r) \<Rightarrow> chat_widget \<Rightarrow> 'r option \<times> chat_widget" where
  "handleSendMessage onSend w =
     (if trim (inputValue w) \<noteq> [] then (Some (onSend (inputValue w)), w\<lparr>inputValue := []\<rparr>)
      else (None, w))"

definition handleMenuOptionClick :: "(string \<Rightarrow> 'r) \<Rightarrow> menu_option \<Rightarrow> 'r" where
  "handleMenuOptionClick onSend opt = onSend (prompt opt)"

definition handleRestart :: "(unit \<Rightarrow> 'r) \<Rightarrow> chat_widget \<Rightarrow> 'r \<times> chat_widget" where
  "handleRestart onRestart w = (onRestart (), w)"

definition handleClear :: "(unit \<Rightarrow> 'r) \<Rightarrow> chat_widget \<Rightarrow> 'r \<times> chat_widget" where
  "handleClear onClear w = (onClear (), w\<lparr>inputValue := [], showSources_widget := Map.empty\<rparr>)"

text \<open>\<open>toggleSources\<close> of the widget: \<open>[messageIndex]: !prev[messageIndex]\<close>.\<close>

definition toggleSources :: "chat_widget \<Rightarrow> nat \<Rightarrow> chat_widget" where
  "toggleSources w messageIndex =
     w\<lparr>showSources_widget := (showSources_widget w)
          (messageIndex \<mapsto> \<not> (case showSources_widget w messageIndex of
                                    None \<Rightarrow> False | Some shown \<Rightarrow> shown))\<rparr>"

text \<open>
  What the widget renders for the menu: \<open>None\<close> when the block of menu buttons is not
  part of the output, otherwise the buttons in order, each with its label and the message
  its click sends. The block is part of the chat panel, which is rendered while the widget
  is open.
\<close>

datatype button = Button (label: string) (sends: string)

definition render_menu_options :: "chat_widget \<Rightarrow> bot \<Rightarrow> msg list \<Rightarrow> button list option" where
  "render_menu_options w b msgs =
     (if isOpen w then
        (if length msgs = 1 \<and> role (msgs ! 0) = Assistant then
           (case menu_options b of
              None \<Rightarrow> None
            | Some opts \<Rightarrow> Some (map (\<lambda>opt. Button (option_name opt) (prompt opt)) opts))
         else None)
      else None)"

subsection \<open>What is said of a cited source\<close>



subsection \<open>Examples\<close>

definition demo_option :: menu_option where
  "demo_option = \<lparr>option_name = ''Pricing'', prompt = ''Explain the pricing plans in detail''\<rparr>"

definition demo_bot :: bot where
  "demo_bot = \<lparr>name = ''Helper'', greeting_message = Some ''Hello! How can I help?'',
                menu_options = Some [demo_option]\<rparr>"

definition demo_page :: test_bot where
  "demo_page = \<lparr>botId = ''42'', bot = Some demo_bot,
                 messages = [greeting ''Hello! How can I help?''], inputMessage = [],
                 isLoading = False, showSources = Map.empty, showMenu = False\<rparr>"

definition demo_reply :: chat_response where
  "demo_reply =
     \<lparr>data_message = JStr ''Our plans start at 5 dollars.'', data_summary = JUndefined,
      data_legal_response = JUndefined,
      data_sources = Some
        [JObj [(''metadata'', JObj [(''url'', JStr ''https://example.com/pricing''),
                                    (''title'', JStr ''Pricing'')])],
         JObj [(''filename'', JStr ''plans.pdf'')]]\<rparr>"

text \<open>
  The page after one answered turn, and the widget over it: open, with a draft typed into
  its input field and the source panel of the answer (the message at index 2) opened.
\<close>

definition demo_chat :: test_bot where
  "demo_chat = fst (sendMessage demo_page (Some ''hi'') (Resolved demo_reply))"

definition demo_widget :: chat_widget where
  "demo_widget =
     toggleSources \<lparr>isOpen = True, inputValue = ''draft'', showSources_widget = Map.empty\<rparr> 2"

section \<open>Ingestion from the dashboard and the edit page\<close>

text \<open>
  What the back end answers to a request of these pages. \<open>Failed\<close> is the promise
  rejecting, with \<open>error.response?.data?.detail\<close> where that is a string; \<open>Succeeded\<close>
  holds the members of \<open>response.data\<close> that the handlers read, as the strings they are
  used as. The back end is a function from requests to replies.
\<close>

record api_data =
  data_id :: string
  data_avatar :: string

datatype reply = Failed "string option" | Succeeded api_data

type_synonym server = "request \<Rightarrow> reply"

text \<open>How a run of awaited requests ends: all done, or an exception thrown to the caller.\<close>

datatype completion = Completed | Thrown "string option"

text \<open>
  The success text is kept by its template and the bot name filled in (its first character
  is outside the strings modelled here).
\<close>

datatype banner = NoBanner | BotCreated string | BotUpdated string

text \<open>The cells that Dashboard and EditBot both have, and the cells of each.\<close>

record bot_form =
  botName :: string
  botDescription :: string
  selectedFiles :: "js_file list option"
  urls :: string
  error :: string
  success :: banner

record dashboard = bot_form +
  isBuilding :: bool

record edit_bot = bot_form +
  editBotId :: string
  greetingMessage :: string
  botAvatar :: string
  menuOptions :: "menu_option list"
  botAvatarFile :: "js_file option"
  editIsLoading :: bool

definition document_request :: "string \<Rightarrow> js_file \<Rightarrow> request" where
  "document_request bid f =
     \<lparr>http_method = POST, path = ''/api/bots/'' @ bid @ ''/documents'', body = FormData [(''file'', f)]\<rparr>"

definition url_request :: "string \<Rightarrow> string \<Rightarrow> request" where
  "url_request bid url =
     \<lparr>http_method = POST, path = ''/api/bots/'' @ bid @ ''/documents/url'',
      body = JsonBody [(''url'', JStr (trim url))]\<rparr>"

text \<open>\<open>urls.trim().split('\n').filter(url => url.trim())\<close>.\<close>

definition urlList :: "string \<Rightarrow> string list" where
  "urlList us = filter (\<lambda>url. trim url \<noteq> []) (split_lines (trim us))"

text \<open>
  The loop over \<open>selectedFiles\<close>, the same in both handlers: each upload is awaited with
  no \<open>try\<close> of its own, so the first rejection leaves the loop and the handler's \<open>try\<close>.
  The result is the requests sent, in order, and how the loop ended.
\<close>

fun upload_files :: "server \<Rightarrow> string \<Rightarrow> js_file list \<Rightarrow> request list \<times> completion" where
  "upload_files srv bid [] = ([], Completed)"
| "upload_files srv bid (f # fs) =
     (case srv (document_request bid f) of
        Failed d \<Rightarrow> ([document_request bid f], Thrown d)
      | Succeeded x \<Rightarrow>
          (case upload_files srv bid fs of (sent, c) \<Rightarrow> (document_request bid f # sent, c)))"

text \<open>The loop over the URLs in \<open>handleBuildBot\<close>: awaited with no \<open>try\<close> of its own.\<close>

fun post_urls :: "server \<Rightarrow> string \<Rightarrow> string list \<Rightarrow> request list \<times> completion" where
  "post_urls srv bid [] = ([], Completed)"
| "post_urls srv bid (url # us) =
     (case srv (url_request bid url) of
        Failed d \<Rightarrow> ([url_request bid url], Thrown d)
      | Succeeded x \<Rightarrow>
          (case post_urls srv bid us of (sent, c) \<Rightarrow> (url_request bid url # sent, c)))"

text \<open>
  The loop over the URLs in \<open>handleUpdateBot\<close>: each post has a \<open>try\<close> of its own whose
  \<open>catch\<close> writes the URL to the console and goes on. The result is the requests sent and
  the URLs logged as failed.
\<close>

fun post_urls_each :: "server \<Rightarrow> string \<Rightarrow> string list \<Rightarrow> request list \<times> string list" where
  "post_urls_each srv bid [] = ([], [])"
| "post_urls_each srv bid (url # us) =
     (case post_urls_each srv bid us of
        (sent, logged) \<Rightarrow>
          (url_request bid url # sent,
           (case srv (url_request bid url) of Failed d \<Rightarrow> url # logged | Succeeded x \<Rightarrow> logged)))"

text \<open>\<open>error.response?.data?.detail || fallback\<close>.\<close>

definition detail_or :: "string option \<Rightarrow> string \<Rightarrow> string" where
  "detail_or d fallback = str_or d fallback"

definition create_request :: "string \<Rightarrow> string \<Rightarrow> request" where
  "create_request nm descr =
     \<lparr>http_method = POST, path = ''/api/bots/'',
      body = JsonBody
        [(''name'', JStr nm),
         (''description'', JStr (if descr \<noteq> [] then descr else ''A chatbot named '' @ nm)),
         (''system_prompt'', JStr (''You are '' @ nm @
            '', a helpful AI assistant. Answer questions based on the provided context.''))]\<rparr>"

text \<open>
  \<open>handleBuildBot\<close> of Dashboard: the state it leaves and the requests it sent, in order.
  The last request of a successful run is that of \<open>loadBots()\<close>, whose handling of the
  answer is not part of this handler.
\<close>

definition build_failed :: "dashboard \<Rightarrow> string option \<Rightarrow> dashboard" where
  "build_failed st d =
     st\<lparr>error := detail_or d ''Failed to create bot. Please try again.'', isBuilding := False\<rparr>"

definition handleBuildBot :: "server \<Rightarrow> dashboard \<Rightarrow> dashboard \<times> request list" where
  "handleBuildBot srv st0 =
     (if trim (botName st0) = [] then (st0\<lparr>error := ''Please enter a bot name''\<rparr>, [])
      else
        let st = st0\<lparr>isBuilding := True, error := [], success := NoBanner\<rparr>;
            create = create_request (botName st0) (botDescription st0)
        in case srv create of
             Failed d \<Rightarrow> (build_failed st d, [create])
           | Succeeded botResponse \<Rightarrow>
               (let bid = data_id botResponse in
                case upload_files srv bid (case selectedFiles st0 of None \<Rightarrow> [] | Some fs \<Rightarrow> fs) of
                  (sent1, Thrown d) \<Rightarrow> (build_failed st d, create # sent1)
                | (sent1, Completed) \<Rightarrow>
                    (case (if trim (urls st0) \<noteq> [] then post_urls srv bid (urlList (urls st0))
                           else ([], Completed)) of
                       (sent2, Thrown d) \<Rightarrow> (build_failed st d, create # sent1 @ sent2)
                     | (sent2, Completed) \<Rightarrow>
                         (st\<lparr>success := BotCreated (botName st0), botName := [],
                             botDescription := [], selectedFiles := None, urls := [],
                             isBuilding := False\<rparr>,
                          create # sent1 @ sent2 @
                            [\<lparr>http_method = GET, path = ''/api/bots/'', body = NoBody\<rparr>]))))"

text \<open>
  \<open>handleUpdateBot\<close> of EditBot, likewise. The last request of a successful run is the
  first one of \<open>loadBot()\<close>; the timer that clears the success text is left out.
\<close>

definition update_failed :: "edit_bot \<Rightarrow> string option \<Rightarrow> edit_bot" where
  "update_failed st d =
     st\<lparr>error := detail_or d ''Failed to update bot. Please try again.'', editIsLoading := False\<rparr>"

definition menu_option_json :: "menu_option \<Rightarrow> jsval" where
  "menu_option_json opt = JObj [(''option_name'', JStr (option_name opt)), (''prompt'', JStr (prompt opt))]"

definition update_request :: "edit_bot \<Rightarrow> string \<Rightarrow> request" where
  "update_request st avatarUrl =
     \<lparr>http_method = PUT, path = ''/api/bots/'' @ editBotId st,
      body = JsonBody
        [(''name'', JStr (botName st)),
         (''description'', JStr (if botDescription st \<noteq> [] then botDescription st
                                 else ''A chatbot named '' @ botName st)),
         (''greeting_message'', JStr (greetingMessage st)),
         (''avatar'', JStr avatarUrl),
         (''menu_options'', JArr (map menu_option_json (menuOptions st)))]\<rparr>"

definition avatar_request :: "string \<Rightarrow> js_file \<Rightarrow> request" where
  "avatar_request bid f =
     \<lparr>http_method = POST, path = ''/api/bots/'' @ bid @ ''/avatar'', body = FormData [(''file'', f)]\<rparr>"

text \<open>The part of \<open>handleUpdateBot\<close> after the bot's details are stored: files, then URLs.\<close>

definition update_documents :: "server \<Rightarrow> edit_bot \<Rightarrow> edit_bot \<Rightarrow> edit_bot \<times> request list" where
  "update_documents srv st0 st =
     (case upload_files srv (editBotId st0) (case selectedFiles st0 of None \<Rightarrow> [] | Some fs \<Rightarrow> fs) of
        (sent1, Thrown d) \<Rightarrow> (update_failed st d, sent1)
      | (sent1, Completed) \<Rightarrow>
          (let sent2 = (if trim (urls st0) \<noteq> []
                        then fst (post_urls_each srv (editBotId st0) (urlList (urls st0))) else [])
           in (st\<lparr>success := BotUpdated (botName st0), editIsLoading := False\<rparr>,
               sent1 @ sent2 @
                 [\<lparr>http_method = GET, path = ''/api/bots/'' @ editBotId st0, body = NoBody\<rparr>])))"

definition handleUpdateBot :: "server \<Rightarrow> edit_bot \<Rightarrow> edit_bot \<times> request list" where
  "handleUpdateBot srv st0 =
     (if trim (botName st0) = [] then (st0\<lparr>error := ''Please enter a bot name''\<rparr>, [])
      else
        let st = st0\<lparr>editIsLoading := True, error := [], success := NoBanner\<rparr> in
        case (case botAvatarFile st0 of
                None \<Rightarrow> ([], Inr (botAvatar st0))
              | Some f \<Rightarrow>
                  (case srv (avatar_request (editBotId st0) f) of
                     Failed d \<Rightarrow> ([avatar_request (editBotId st0) f], Inl d)
                   | Succeeded response \<Rightarrow>
                       ([avatar_request (editBotId st0) f], Inr (data_avatar response)))) of
          (sent0, Inl d) \<Rightarrow> (update_failed st d, sent0)
        | (sent0, Inr avatarUrl) \<Rightarrow>
            (case srv (update_request st0 avatarUrl) of
               Failed d \<Rightarrow> (update_failed st d, sent0 @ [update_request st0 avatarUrl])
             | Succeeded x \<Rightarrow>
                 (case update_documents srv st0 st of
                    (st', sent) \<Rightarrow> (st', sent0 @ update_request st0 avatarUrl # sent))))"

subsection \<open>Examples\<close>

text \<open>A back end that rejects the upload of \<open>a.pdf\<close> and the URL \<open>https://a.example\<close> only.\<close>

definition demo_server :: server where
  "demo_server r =
     (if body r = FormData [(''file'', ''a.pdf'')] \<or> body r = JsonBody [(''url'', JStr ''https://a.example'')]
      then Failed None else Succeeded \<lparr>data_id = ''7'', data_avatar = []\<rparr>)"

definition demo_dashboard :: dashboard where
  "demo_dashboard =
     \<lparr>botName = ''Helper'', botDescription = [], selectedFiles = Some [''a.pdf'', ''b.pdf''],
      urls = ''https://b.example'', error = [], success = NoBanner, isBuilding = False\<rparr>"

definition demo_edit_bot :: edit_bot where
  "demo_edit_bot =
     \<lparr>botName = ''Helper'', botDescription = [], selectedFiles = None,
      urls = ''https://a.example'' @ [CHR 0x0A] @ ''https://b.example'', error = [],
      success = NoBanner, editBotId = ''7'', greetingMessage = ''Hello'', botAvatar = [],
      menuOptions = [], botAvatarFile = None, editIsLoading = False\<rparr>"

section \<open>The vector store\<close>

text \<open>
  Modelled from the spec: the Vector Store of the retrieval core (the component that keeps
  the chunk vectors of every bot and searches them), which is not among the front-end
  sources of this repository. The definitions follow the spec's contract
  \<open>upsert(bot_id, chunk_id, vector, metadata)\<close>, \<open>delete(bot_id, document_id)\<close>,
  \<open>delete_bot(bot_id)\<close> and \<open>search(bot_id, query_vector, top_k)\<close>, its data model of a
  chunk, cosine similarity as the score, ties broken by the sequence index, and at most
  \<open>top_k\<close> results.
\<close>

text \<open>
  Modelled from the spec: a chunk as the store keeps it. Its metadata holds what the
  contract of \<open>upsert\<close> passes besides the two ids and the vector.
\<close>

datatype origin = FromFile | FromUrl

record chunk_metadata =
  document_id :: string
  seq_index :: nat
  raw_text :: string
  source_type :: origin
  source_identifier :: string
  source_title :: string
  page_number :: "nat option"

record chunk =
  bot_id :: string
  chunk_id :: string
  embedding :: "real list"
  metadata :: chunk_metadata

type_synonym vector_store = "chunk list"

text \<open>Modelled from the spec: \<open>upsert\<close> replaces the bot's chunk of that id, or adds it.\<close>

definition upsert :: "vector_store \<Rightarrow> string \<Rightarrow> string \<Rightarrow> real list \<Rightarrow> chunk_metadata \<Rightarrow> vector_store" where
  "upsert s b cid v md =
     filter (\<lambda>c. \<not> (bot_id c = b \<and> chunk_id c = cid)) s
       @ [\<lparr>bot_id = b, chunk_id = cid, embedding = v, metadata = md\<rparr>]"

text \<open>Modelled from the spec: \<open>delete\<close> removes all chunks of that document of the bot.\<close>

definition delete :: "vector_store \<Rightarrow> string \<Rightarrow> string \<Rightarrow> vector_store" where
  "delete s b doc = filter (\<lambda>c. \<not> (bot_id c = b \<and> document_id (metadata c) = doc)) s"

text \<open>Modelled from the spec: \<open>delete_bot\<close> removes all chunks of that bot.\<close>

definition delete_bot :: "vector_store \<Rightarrow> string \<Rightarrow> vector_store" where
  "delete_bot s b = filter (\<lambda>c. bot_id c \<noteq> b) s"

text \<open>
  Modelled from the spec: the score is the cosine similarity of the query and the chunk's
  vector. (The spec leaves the score of a zero vector open; here it is 0.)
\<close>

fun dot :: "real list \<Rightarrow> real list \<Rightarrow> real" where
  "dot (x # xs) (y # ys) = x * y + dot xs ys"
| "dot xs ys = 0"

definition cosine :: "real list \<Rightarrow> real list \<Rightarrow> real" where
  "cosine a b = dot a b / (sqrt (dot a a) * sqrt (dot b b))"

text \<open>
  Modelled from the spec: results are ranked by falling score, a tie going to the lower
  sequence index; the sort is an insertion sort, which keeps equal entries in their order.
\<close>

definition ranks_before :: "chunk \<times> real \<Rightarrow> chunk \<times> real \<Rightarrow> bool" where
  "ranks_before a b =
     (snd a > snd b \<or> (snd a = snd b \<and> seq_index (metadata (fst a)) \<le> seq_index (metadata (fst b))))"

fun insert_ranked :: "chunk \<times> real \<Rightarrow> (chunk \<times> real) list \<Rightarrow> (chunk \<times> real) list" where
  "insert_ranked a [] = [a]"
| "insert_ranked a (b # bs) = (if ranks_before a b then a # b # bs else b # insert_ranked a bs)"

fun rank :: "(chunk \<times> real) list \<Rightarrow> (chunk \<times> real) list" where
  "rank [] = []"
| "rank (a # as) = insert_ranked a (rank as)"

text \<open>
  Modelled from the spec: \<open>search\<close> scores the chunks of the one bot it is scoped to and
  returns the \<open>top_k\<close> best, or all of them when there are fewer.
\<close>

definition search :: "vector_store \<Rightarrow> string \<Rightarrow> real list \<Rightarrow> nat \<Rightarrow> (chunk \<times> real) list" where
  "search s b query_vector top_k =
     take top_k (rank (map (\<lambda>c. (c, cosine query_vector (embedding c))) (filter (\<lambda>c. bot_id c = b) s)))"

text \<open>
  Modelled from the spec: the store's operations as data, and the store that a run of them
  leaves when it starts from the empty store (the reachable stores).
\<close>

datatype store_op =
    Upsert string string "real list" chunk_metadata
  | Delete string string
  | DeleteBot string

fun apply_op :: "vector_store \<Rightarrow> store_op \<Rightarrow> vector_store" where
  "apply_op s (Upsert b cid v md) = upsert s b cid v md"
| "apply_op s (Delete b doc) = delete s b doc"
| "apply_op s (DeleteBot b) = delete_bot s b"

definition store_after :: "store_op list \<Rightarrow> vector_store" where
  "store_after ops = foldl apply_op [] ops"

text \<open>
  Modelled from the spec: the documents a bot has in the store, and what it is for a chunk
  to be owned by a bot: to carry the bot's id, or to come from one of the bot's documents.
\<close>

definition documents_of :: "vector_store \<Rightarrow> string \<Rightarrow> string list" where
  "documents_of s b = map (\<lambda>c. document_id (metadata c)) (filter (\<lambda>c. bot_id c = b) s)"

definition owned_by :: "vector_store \<Rightarrow> string \<Rightarrow> chunk \<Rightarrow> bool" where
  "owned_by s b c = (bot_id c = b \<or> document_id (metadata c) \<in> set (documents_of s b))"

subsection \<open>Examples\<close>

definition demo_meta :: "string \<Rightarrow> chunk_metadata" where
  "demo_meta doc =
     \<lparr>document_id = doc, seq_index = 0, raw_text = ''Our refund window is 30 days.'',
      source_type = FromFile, source_identifier = ''refunds.txt'', source_title = ''Refunds'',
      page_number = None\<rparr>"

definition demo_ops :: "store_op list" where
  "demo_ops = [Upsert ''A'' ''c1'' [1, 0] (demo_meta ''d1''),
               Upsert ''B'' ''c2'' [1, 0] (demo_meta ''d2''),
               Upsert ''A'' ''c3'' [0, 1] (demo_meta ''d3''),
               Delete ''A'' ''d3'']"

section \<open>Properties of the chat page\<close>

lemmas demo_defs = demo_page_def demo_bot_def demo_option_def demo_reply_def greeting_def
  user_message_def errorMessage_def effective_content_def str_or_def str_not_def trim_def is_ws_def

lemmas send_defs = sendMessage_def sendMessage_request_def sendMessage_response_def Let_def

subsection \<open>The guard of sendMessage\<close>

lemma trim_Nil: "trim [] = []"
  by (simp add: trim_def)

lemma sendMessage_request_blocked:
  "trim (effective_content st mc) = [] \<or> isLoading st \<Longrightarrow> sendMessage_request st mc = (st, None)"
  by (auto simp: sendMessage_request_def Let_def)

lemma sendMessage_request_accepted:
  "trim (effective_content st mc) \<noteq> [] \<Longrightarrow> \<not> isLoading st \<Longrightarrow>
   sendMessage_request st mc =
     (st\<lparr>messages := messages st @ [user_message (effective_content st mc)],
         inputMessage := (if str_not mc then [] else inputMessage st),
         isLoading := True\<rparr>,
      Some \<lparr>http_method = POST, path = ''/api/chat/'' @ botId st,
            body = JsonBody [(''content'', JStr (effective_content st mc))]\<rparr>)"
  by (simp add: sendMessage_request_def Let_def)

text \<open>
  Claim C8. A call of \<open>sendMessage\<close> whose message is empty or all white space, or which
  is made while a request is in flight (\<open>isLoading\<close>), leaves the whole state of the page as
  it was, the history and the input field with it, and posts no request. The message of a
  call is \<open>messageContent || inputMessage\<close>: the argument, or the input field where the
  argument is absent or empty. This holds for both variants of the page.
\<close>

theorem sendMessage_guard_frame:
  assumes "trim (effective_content st mc) = [] \<or> isLoading st"
  shows "sendMessage st mc out = (st, None) \<and> sendMessage_legal st mc out = (st, None)"
  using sendMessage_request_blocked[OF assms]
  by (simp add: sendMessage_def sendMessage_legal_def)

theorem sendMessage_guard_frame_witness:
  "trim (effective_content demo_page (Some [CHR 0x20, CHR 0x09])) = []
   \<and> sendMessage demo_page (Some [CHR 0x20, CHR 0x09]) (Resolved demo_reply) = (demo_page, None)
   \<and> isLoading (demo_page\<lparr>isLoading := True\<rparr>)
   \<and> sendMessage (demo_page\<lparr>isLoading := True\<rparr>) (Some ''hi'') (Resolved demo_reply)
       = (demo_page\<lparr>isLoading := True\<rparr>, None)"
  using sendMessage_guard_frame[of demo_page "Some [CHR 0x20, CHR 0x09]" "Resolved demo_reply"]
        sendMessage_guard_frame[of "demo_page\<lparr>isLoading := True\<rparr>" "Some ''hi''" "Resolved demo_reply"]
  by (simp add: demo_defs)

subsection \<open>A failed request\<close>

lemma messages_sendMessage_response:
  "messages (sendMessage_response st out) =
     messages st @ [case out of Rejected \<Rightarrow> errorMessage
                    | Resolved d \<Rightarrow> (case assistantMessage d of Inl e \<Rightarrow> errorMessage | Inr a \<Rightarrow> a)]"
  by (simp add: sendMessage_response_def Let_def)

lemma role_assistantMessage: "assistantMessage d = Inr a \<Longrightarrow> role a = Assistant"
  by (auto simp: assistantMessage_def Let_def split: sum.splits if_splits)

lemma role_reply:
  "role (case out of Rejected \<Rightarrow> errorMessage
         | Resolved d \<Rightarrow> (case assistantMessage d of Inl e \<Rightarrow> errorMessage | Inr a \<Rightarrow> a)) = Assistant"
  by (auto simp: errorMessage_def role_assistantMessage split: outcome.splits sum.splits)

text \<open>
  Claim C2. When the request of a chat turn fails (the promise rejects: an error or a
  timeout), the turn still ends: the history gains the user's turn and then an assistant
  turn holding the apology, in both variants of the page; nothing is thrown on, the loading
  flag is down again, and the next message that is not blank is accepted and posted.
\<close>

theorem chat_failure_fallback:
  assumes "trim (effective_content st mc) \<noteq> []" and "\<not> isLoading st"
  shows "messages (fst (sendMessage st mc Rejected))
           = messages st @ [user_message (effective_content st mc), errorMessage]
         \<and> messages (fst (sendMessage_legal st mc Rejected))
           = messages st @ [user_message (effective_content st mc), errorMessage]
         \<and> role errorMessage = Assistant
         \<and> content errorMessage = JStr ''Sorry, I encountered an error. Please try again.''
         \<and> \<not> isLoading (fst (sendMessage st mc Rejected))
         \<and> \<not> isLoading (fst (sendMessage_legal st mc Rejected))
         \<and> (\<forall>next. trim next \<noteq> [] \<longrightarrow>
               snd (sendMessage_request (fst (sendMessage st mc Rejected)) (Some next)) \<noteq> None
             \<and> snd (sendMessage_request (fst (sendMessage_legal st mc Rejected)) (Some next)) \<noteq> None)"
  using assms
  by (simp add: sendMessage_def sendMessage_legal_def sendMessage_request_accepted
      sendMessage_response_def sendMessage_response_legal_def errorMessage_def
      sendMessage_request_def effective_content_def str_or_def Let_def trim_Nil)

theorem chat_failure_fallback_witness:
  "trim (effective_content demo_page (Some ''hi'')) \<noteq> [] \<and> \<not> isLoading demo_page
   \<and> messages (fst (sendMessage demo_page (Some ''hi'') Rejected))
       = [greeting ''Hello! How can I help?'', user_message ''hi'', errorMessage]
   \<and> \<not> isLoading (fst (sendMessage demo_page (Some ''hi'') Rejected))
   \<and> snd (sendMessage_request (fst (sendMessage demo_page (Some ''hi'') Rejected)) (Some ''again''))
       \<noteq> None"
  using chat_failure_fallback[of demo_page "Some ''hi''"]
  by (simp add: demo_defs)

subsection \<open>The order of the turns\<close>

lemma prefix_step: "prefix (messages st) (messages (step st ev))"
  by (cases ev) (auto simp: sendMessage_request_def sendMessage_response_def Let_def)

lemma prefix_steps: "prefix (messages st) (messages (foldl step st evs))"
proof (induction evs arbitrary: st)
  case Nil
  show ?case by simp
next
  case (Cons ev evs)
  have "prefix (messages st) (messages (step st ev))" by (rule prefix_step)
  also have "prefix (messages (step st ev)) (messages (foldl step (step st ev) evs))"
    by (rule Cons.IH)
  finally show ?case by simp
qed

lemma messages_sendMessage:
  assumes "trim (effective_content st mc) \<noteq> []" and "\<not> isLoading st"
  shows "\<exists>a. messages (fst (sendMessage st mc out))
               = messages st @ [user_message (effective_content st mc), a] \<and> role a = Assistant"
  using assms
  by (simp add: sendMessage_def sendMessage_request_accepted messages_sendMessage_response role_reply)

lemma isLoading_sendMessage: "\<not> isLoading st \<Longrightarrow> \<not> isLoading (fst (sendMessage st mc out))"
  by (auto simp: send_defs split: prod.splits option.splits if_splits)

text \<open>
  Claim C5. Within a session the history only grows at its end. Whatever calls of
  \<open>sendMessage\<close> and settled requests follow one another, the history before them is a
  prefix of the history after them, so no recorded turn is moved or changed. A processed
  call appends the user's turn and then the assistant's turn for it, and two calls in a row
  leave their four turns in the order in which the messages were sent.
\<close>

theorem turns_appended_in_order:
  "prefix (messages st) (messages (foldl step st evs))
   \<and> (trim (effective_content st mc) \<noteq> [] \<and> \<not> isLoading st \<longrightarrow>
        (\<exists>a. messages (fst (sendMessage st mc out))
                = messages st @ [user_message (effective_content st mc), a]
              \<and> role (user_message (effective_content st mc)) = User \<and> role a = Assistant))
   \<and> (trim (effective_content st mc) \<noteq> [] \<and> \<not> isLoading st
        \<and> trim (effective_content (fst (sendMessage st mc out)) mc') \<noteq> [] \<longrightarrow>
        (\<exists>a a'. messages (fst (sendMessage (fst (sendMessage st mc out)) mc' out'))
                = messages st @ [user_message (effective_content st mc), a,
                     user_message (effective_content (fst (sendMessage st mc out)) mc'), a']
              \<and> role a = Assistant \<and> role a' = Assistant))"
proof (intro conjI impI)
  show "prefix (messages st) (messages (foldl step st evs))" by (rule prefix_steps)
next
  assume "trim (effective_content st mc) \<noteq> [] \<and> \<not> isLoading st"
  then show "\<exists>a. messages (fst (sendMessage st mc out))
                = messages st @ [user_message (effective_content st mc), a]
              \<and> role (user_message (effective_content st mc)) = User \<and> role a = Assistant"
    using messages_sendMessage[of st mc out] by (simp add: user_message_def)
next
  let ?st1 = "fst (sendMessage st mc out)"
  assume a: "trim (effective_content st mc) \<noteq> [] \<and> \<not> isLoading st
        \<and> trim (effective_content ?st1 mc') \<noteq> []"
  then obtain a1 where a1: "messages ?st1 = messages st @ [user_message (effective_content st mc), a1]"
      "role a1 = Assistant"
    using messages_sendMessage[of st mc out] by blast
  from a have "\<not> isLoading ?st1" by (simp add: isLoading_sendMessage)
  with a obtain a2 where a2: "messages (fst (sendMessage ?st1 mc' out'))
      = messages ?st1 @ [user_message (effective_content ?st1 mc'), a2]" "role a2 = Assistant"
    using messages_sendMessage[of ?st1 mc' out'] by blast
  from a1 a2 show "\<exists>a a'. messages (fst (sendMessage ?st1 mc' out'))
                = messages st @ [user_message (effective_content st mc), a,
                     user_message (effective_content ?st1 mc'), a']
              \<and> role a = Assistant \<and> role a' = Assistant"
    by simp
qed

theorem turns_appended_in_order_witness:
  "trim (effective_content demo_page (Some ''hi'')) \<noteq> [] \<and> \<not> isLoading demo_page
   \<and> trim (effective_content (fst (sendMessage demo_page (Some ''hi'') Rejected)) (Some ''more'')) \<noteq> []
   \<and> messages (fst (sendMessage demo_page (Some ''hi'') Rejected))
       = messages demo_page @ [user_message ''hi'', errorMessage]
   \<and> map content (messages (fst (sendMessage (fst (sendMessage demo_page (Some ''hi'') Rejected))
                                (Some ''more'') (Resolved demo_reply))))
       = [JStr ''Hello! How can I help?'', JStr ''hi'',
          JStr ''Sorry, I encountered an error. Please try again.'', JStr ''more'',
          JStr ''Our plans start at 5 dollars.'']
   \<and> prefix (messages demo_page)
         (messages (foldl step demo_page
            [Send (Some ''hi''), Send (Some ''more''), Settle Rejected, Send (Some ''more'')]))
   \<and> map content (messages (foldl step demo_page
            [Send (Some ''hi''), Send (Some ''more''), Settle Rejected, Send (Some ''more'')]))
       = [JStr ''Hello! How can I help?'', JStr ''hi'',
          JStr ''Sorry, I encountered an error. Please try again.'', JStr ''more'']"
  using turns_appended_in_order[of demo_page
          "[Send (Some ''hi''), Send (Some ''more''), Settle Rejected, Send (Some ''more'')]"
          "Some ''hi''" Rejected "Some ''more''" "Resolved demo_reply"]
  by (simp add: demo_defs send_defs assistantMessage_def transform_source_def js_or_def)

subsection \<open>What a chat request carries\<close>

text \<open>
  Claim C6, as amended. Every chat request that is posted carries the bot's id (in its
  path) and the text of the new message (as the one member, \<open>content\<close>, of its body). The
  history is not part of it: with any other history the same request is posted.
\<close>

theorem chat_request_contents:
  assumes "trim (effective_content st mc) \<noteq> []" and "\<not> isLoading st"
  shows "snd (sendMessage st mc out)
           = Some \<lparr>http_method = POST, path = ''/api/chat/'' @ botId st,
                   body = JsonBody [(''content'', JStr (effective_content st mc))]\<rparr>
         \<and> snd (sendMessage (st\<lparr>messages := history\<rparr>) mc out) = snd (sendMessage st mc out)"
  using assms
  by (simp add: sendMessage_def sendMessage_request_def effective_content_def Let_def)

theorem chat_request_contents_witness:
  "trim (effective_content demo_page (Some ''hi'')) \<noteq> [] \<and> \<not> isLoading demo_page
   \<and> snd (sendMessage demo_page (Some ''hi'') (Resolved demo_reply))
       = Some \<lparr>http_method = POST, path = ''/api/chat/42'', body = JsonBody [(''content'', JStr ''hi'')]\<rparr>
   \<and> snd (sendMessage (demo_page\<lparr>messages := []\<rparr>) (Some ''hi'') (Resolved demo_reply))
       = snd (sendMessage demo_page (Some ''hi'') (Resolved demo_reply))"
  using chat_request_contents[of demo_page "Some ''hi''" "Resolved demo_reply" "[]"]
  by (simp add: demo_defs)

text \<open>
  The claim as it was stated fails: two sessions whose histories differ post the very same
  request for the same message, a request whose body holds the message text only.
\<close>

theorem chat_request_history_counterexample:
  "messages demo_page \<noteq> messages (demo_page\<lparr>messages := []\<rparr>)
   \<and> snd (sendMessage demo_page (Some ''hi'') (Resolved demo_reply))
       = snd (sendMessage (demo_page\<lparr>messages := []\<rparr>) (Some ''hi'') (Resolved demo_reply))
   \<and> snd (sendMessage demo_page (Some ''hi'') (Resolved demo_reply))
       = Some \<lparr>http_method = POST, path = ''/api/chat/42'', body = JsonBody [(''content'', JStr ''hi'')]\<rparr>"
  by (simp add: demo_defs sendMessage_def sendMessage_request_def Let_def)

subsection \<open>The sources of an answer\<close>






subsection \<open>Menu options\<close>

lemma menu_option_click:
  assumes "trim (prompt opt) \<noteq> []" and "\<not> isLoading st"
  shows "\<exists>a. messages (fst (handleMenuOptionClick (\<lambda>message. sendMessage st (Some message) out) opt))
               = messages st @ [user_message (prompt opt), a]"
proof -
  from assms(1) have "prompt opt \<noteq> []" by (auto simp: trim_Nil)
  then have "effective_content st (Some (prompt opt)) = prompt opt"
    by (simp add: effective_content_def str_or_def)
  with assms show ?thesis
    using messages_sendMessage[of st "Some (prompt opt)" out]
    by (auto simp: handleMenuOptionClick_def)
qed

text \<open>
  Claim C3, at an input where the code departs from it. The bot has the menu option
  labelled \<open>Pricing\<close> with the hidden prompt \<open>Explain the pricing plans in detail\<close>, and
  the user clicks it in a fresh session. The prompt is posted as the message, as the claim
  says; but the user's turn in the history holds the prompt too, and not the label.
\<close>

theorem menu_option_click_shows_prompt:
  "messages (fst (handleMenuOptionClick
       (\<lambda>message. sendMessage demo_page (Some message) (Resolved demo_reply)) demo_option)) ! 1
     = user_message ''Explain the pricing plans in detail''
   \<and> content (messages (fst (handleMenuOptionClick
       (\<lambda>message. sendMessage demo_page (Some message) (Resolved demo_reply)) demo_option)) ! 1)
       \<noteq> JStr (option_name demo_option)
   \<and> snd (handleMenuOptionClick
       (\<lambda>message. sendMessage demo_page (Some message) (Resolved demo_reply)) demo_option)
       = Some \<lparr>http_method = POST, path = ''/api/chat/42'',
               body = JsonBody [(''content'', JStr ''Explain the pricing plans in detail'')]\<rparr>"
  by (simp add: demo_defs handleMenuOptionClick_def send_defs)

text \<open>
  Claim C10, as amended. ChatWidget renders the block of menu buttons if and only if the
  widget is open, the history holds exactly one message, that message is an assistant turn
  and the bot defines \<open>menu_options\<close>; the block then holds one button for each option, in
  order, labelled with its \<open>option_name\<close> (none for an empty list of options).
\<close>

theorem menu_buttons_rendered:
  "(render_menu_options w b msgs \<noteq> None)
      = (isOpen w \<and> length msgs = 1 \<and> role (hd msgs) = Assistant \<and> menu_options b \<noteq> None)
   \<and> (\<forall>bs. render_menu_options w b msgs = Some bs \<longrightarrow>
         (\<exists>opts. menu_options b = Some opts \<and> length bs = length opts
                \<and> map label bs = map option_name opts))"
  by (cases msgs) (auto simp: render_menu_options_def comp_def split: option.splits)

theorem menu_buttons_rendered_witness:
  "render_menu_options \<lparr>isOpen = True, inputValue = [], showSources_widget = Map.empty\<rparr> demo_bot (messages demo_page)
     = Some [Button ''Pricing'' ''Explain the pricing plans in detail'']
   \<and> map label [Button ''Pricing'' ''Explain the pricing plans in detail''] = [''Pricing'']
   \<and> isOpen \<lparr>isOpen = True, inputValue = [], showSources_widget = Map.empty\<rparr> \<and> length (messages demo_page) = 1
   \<and> role (hd (messages demo_page)) = Assistant \<and> menu_options demo_bot \<noteq> None"
  using menu_buttons_rendered[of "\<lparr>isOpen = True, inputValue = [], showSources_widget = Map.empty\<rparr>" demo_bot "messages demo_page"]
  by (simp add: demo_defs render_menu_options_def)

text \<open>
  The claim as it was stated fails while the widget is closed: the history is the greeting
  alone and the bot defines menu options, yet no menu button is rendered.
\<close>

theorem menu_buttons_closed_counterexample:
  "length (messages demo_page) = 1 \<and> role (hd (messages demo_page)) = Assistant
   \<and> menu_options demo_bot \<noteq> None
   \<and> render_menu_options \<lparr>isOpen = False, inputValue = [], showSources_widget = Map.empty\<rparr> demo_bot (messages demo_page) = None"
  by (simp add: demo_defs render_menu_options_def)

subsection \<open>Restarting the chat\<close>

text \<open>
  What \<open>restartChat\<close> does to the page's own cells: the history becomes the one assistant
  turn holding the bot's greeting when the bot has a greeting (one that is not the empty
  string), and is empty when there is no bot or no such greeting; the page's
  \<open>inputMessage\<close> and \<open>showSources\<close> are reset either way.
\<close>

lemma restartChat_result:
  "(\<forall>b g. bot st = Some b \<and> greeting_message b = Some g \<and> g \<noteq> [] \<longrightarrow>
       messages (restartChat st) = [greeting g])
   \<and> ((bot st = None
        \<or> (\<exists>b. bot st = Some b \<and> (greeting_message b = None \<or> greeting_message b = Some [])))
        \<longrightarrow> messages (restartChat st) = [])
   \<and> role (greeting g) = Assistant \<and> content (greeting g) = JStr g
   \<and> inputMessage (restartChat st) = []
   \<and> showSources (restartChat st) = Map.empty"
  by (auto simp: restartChat_def clearChat_def greeting_def Let_def split: option.splits)

text \<open>
  On this page the input field and the source panels are the widget's: the page renders
  the widget alone, and the widget's restart button runs \<open>handleRestart\<close>, which calls
  \<open>restartChat\<close> and leaves the widget's cells as they are, whatever they hold.
\<close>

lemma handleRestart_keeps_widget:
  "snd (handleRestart onRestart w) = w"
  by (simp add: handleRestart_def)

text \<open>
  Claim C9, at an input where the code departs from it. After one answered turn the user
  has typed a draft into the input field and opened the source panel of the answer, and
  clicks the restart button. The history becomes the greeting alone, as the claim says; but
  the input field still holds the draft and the panel is still marked open, where the claim
  says both are reset. The clear button, next to it, does reset them.
\<close>

theorem restart_keeps_input_and_panels:
  "messages demo_chat
     = [greeting ''Hello! How can I help?'', user_message ''hi'',
        \<lparr>role = Assistant, content = JStr ''Our plans start at 5 dollars.'',
         sources = Some
           [JObj [(''metadata'', JObj [(''url'', JStr ''https://example.com/pricing''),
                                       (''title'', JStr ''Pricing'')])],
            JObj [(''metadata'', JObj [(''url'', JStr []), (''title'', JStr ''plans.pdf'')])]],
         legal_response = JUndefined\<rparr>]
   \<and> inputValue demo_widget = ''draft'' \<and> showSources_widget demo_widget 2 = Some True
   \<and> messages (fst (handleRestart (\<lambda>u. restartChat demo_chat) demo_widget))
       = [greeting ''Hello! How can I help?'']
   \<and> inputValue (snd (handleRestart (\<lambda>u. restartChat demo_chat) demo_widget)) = ''draft''
   \<and> showSources_widget (snd (handleRestart (\<lambda>u. restartChat demo_chat) demo_widget)) 2 = Some True
   \<and> messages (fst (handleClear (\<lambda>u. clearChat demo_chat) demo_widget)) = []
   \<and> inputValue (snd (handleClear (\<lambda>u. clearChat demo_chat) demo_widget)) = []
   \<and> showSources_widget (snd (handleClear (\<lambda>u. clearChat demo_chat) demo_widget)) 2 = None"
  by (simp add: demo_chat_def demo_widget_def toggleSources_def handleRestart_def handleClear_def
      restartChat_def clearChat_def demo_defs send_defs assistantMessage_def transform_source_def
      js_or_def)

section \<open>Properties of ingestion\<close>

lemmas ingest_defs = demo_server_def demo_dashboard_def demo_edit_bot_def handleBuildBot_def
  handleUpdateBot_def update_documents_def create_request_def document_request_def url_request_def
  update_request_def build_failed_def update_failed_def detail_or_def str_or_def urlList_def
  trim_def is_ws_def Let_def

text \<open>
  The loop over the files, and the loop over the URLs in \<open>handleBuildBot\<close>, send nothing
  after the first item that fails; the loop over the URLs in \<open>handleUpdateBot\<close> sends
  every URL, whatever becomes of the others.
\<close>

lemma upload_files_first_failure:
  assumes "list_all (\<lambda>g. \<exists>x. srv (document_request bid g) = Succeeded x) fs"
    and "srv (document_request bid f) = Failed d"
  shows "upload_files srv bid (fs @ f # gs) = (map (document_request bid) (fs @ [f]), Thrown d)"
  using assms by (induction fs) auto

lemma post_urls_first_failure:
  assumes "list_all (\<lambda>u. \<exists>x. srv (url_request bid u) = Succeeded x) us"
    and "srv (url_request bid u) = Failed d"
  shows "post_urls srv bid (us @ u # vs) = (map (url_request bid) (us @ [u]), Thrown d)"
  using assms by (induction us) auto

lemma post_urls_each_sends_all:
  "fst (post_urls_each srv bid us) = map (url_request bid) us"
  by (induction us) (auto split: prod.splits)

text \<open>
  Claim C4, at an input where the code departs from it. A bot is built from the files
  \<open>a.pdf\<close> and \<open>b.pdf\<close> and one URL, and the back end rejects the upload of \<open>a.pdf\<close>:
  \<open>handleBuildBot\<close> sends nothing after it, neither \<open>b.pdf\<close> nor the URL, and reports one
  failure for the whole batch. The files of \<open>handleUpdateBot\<close> fare the same. Only the URLs
  of \<open>handleUpdateBot\<close> are each tried: after the rejected \<open>https://a.example\<close> the
  next URL is still sent.
\<close>

theorem build_bot_aborts_on_failed_upload:
  "snd (handleBuildBot demo_server demo_dashboard)
     = [create_request ''Helper'' [], document_request ''7'' ''a.pdf'']
   \<and> document_request ''7'' ''b.pdf'' \<notin> set (snd (handleBuildBot demo_server demo_dashboard))
   \<and> url_request ''7'' ''https://b.example'' \<notin> set (snd (handleBuildBot demo_server demo_dashboard))
   \<and> error (fst (handleBuildBot demo_server demo_dashboard)) = ''Failed to create bot. Please try again.''
   \<and> snd (handleUpdateBot demo_server (demo_edit_bot\<lparr>selectedFiles := Some [''a.pdf'', ''b.pdf'']\<rparr>))
     = [update_request (demo_edit_bot\<lparr>selectedFiles := Some [''a.pdf'', ''b.pdf'']\<rparr>) [],
        document_request ''7'' ''a.pdf'']
   \<and> snd (handleUpdateBot demo_server demo_edit_bot)
     = [update_request demo_edit_bot [], url_request ''7'' ''https://a.example'',
        url_request ''7'' ''https://b.example'',
        \<lparr>http_method = GET, path = ''/api/bots/7'', body = NoBody\<rparr>]"
  by (simp add: ingest_defs)

section \<open>Properties of the vector store\<close>

lemma set_insert_ranked: "set (insert_ranked a bs) = insert a (set bs)"
  by (induction bs) auto

lemma set_rank: "set (rank xs) = set xs"
  by (induction xs) (auto simp: set_insert_ranked)

lemma search_in_scope:
  "r \<in> set (search s b q k) \<Longrightarrow> fst r \<in> set s \<and> bot_id (fst r) = b"
  by (auto simp: search_def set_rank dest!: in_set_takeD)

text \<open>
  Claim C1. Take any store that a run of upserts and deletions leaves, two different bots A
  and B whose documents in it are disjoint, any query vector and any bound. Every chunk
  that a search scoped to A returns is a chunk of the store that carries A's id, and it is
  not owned by B: it neither carries B's id nor comes from a document of B.
\<close>

theorem search_tenant_isolation:
  assumes "A \<noteq> B"
    and "set (documents_of (store_after ops) A) \<inter> set (documents_of (store_after ops) B) = {}"
  shows "\<forall>r \<in> set (search (store_after ops) A q k).
           fst r \<in> set (store_after ops) \<and> bot_id (fst r) = A
           \<and> \<not> owned_by (store_after ops) B (fst r)"
proof
  fix r
  assume r: "r \<in> set (search (store_after ops) A q k)"
  then have in_s: "fst r \<in> set (store_after ops)" and own: "bot_id (fst r) = A"
    using search_in_scope by blast+
  then have "document_id (metadata (fst r)) \<in> set (documents_of (store_after ops) A)"
    by (auto simp: documents_of_def)
  with assms(2) have "document_id (metadata (fst r)) \<notin> set (documents_of (store_after ops) B)"
    by blast
  with own assms(1) in_s
  show "fst r \<in> set (store_after ops) \<and> bot_id (fst r) = A
        \<and> \<not> owned_by (store_after ops) B (fst r)"
    by (simp add: owned_by_def)
qed

theorem search_tenant_isolation_witness:
  "''A'' \<noteq> ''B''
   \<and> set (documents_of (store_after demo_ops) ''A'') \<inter> set (documents_of (store_after demo_ops) ''B'') = {}
   \<and> search (store_after demo_ops) ''A'' [1, 0] 5
       = [(\<lparr>bot_id = ''A'', chunk_id = ''c1'', embedding = [1, 0], metadata = demo_meta ''d1''\<rparr>, 1)]
   \<and> \<not> owned_by (store_after demo_ops) ''B''
         \<lparr>bot_id = ''A'', chunk_id = ''c1'', embedding = [1, 0], metadata = demo_meta ''d1''\<rparr>"
  using search_tenant_isolation[of "''A''" "''B''" demo_ops "[1, 0]" 5]
  by (simp add: store_after_def demo_ops_def upsert_def delete_def demo_meta_def documents_of_def
      search_def cosine_def owned_by_def)

end
